theory Spec2Isabelle
  imports Complex_Main
begin

section \<open>JavaScript numbers and values\<close>

text \<open>
  A JavaScript number is modelled by its mathematical value, or one of the three special
  values of the language. Arithmetic on finite values is exact: the rounding of binary64
  and the sign of zero are not represented. Every computation evaluated below stays on
  small integers and their quotients, where binary64 is exact as well.
\<close>

datatype number = Fin real | PosInf | NegInf | NaN

text \<open>The operator \<open>/\<close> of the language.\<close>

fun divide_number :: "number \<Rightarrow> number \<Rightarrow> number" where
  "divide_number NaN _ = NaN"
| "divide_number _ NaN = NaN"
| "divide_number (Fin a) (Fin b) =
     (if b = 0 then (if a = 0 then NaN else if 0 < a then PosInf else NegInf)
      else Fin (a / b))"
| "divide_number (Fin a) PosInf = Fin 0"
| "divide_number (Fin a) NegInf = Fin 0"
| "divide_number PosInf (Fin b) = (if b < 0 then NegInf else PosInf)"
| "divide_number NegInf (Fin b) = (if b < 0 then PosInf else NegInf)"
| "divide_number PosInf PosInf = NaN"
| "divide_number PosInf NegInf = NaN"
| "divide_number NegInf PosInf = NaN"
| "divide_number NegInf NegInf = NaN"

text \<open>The operator \<open>*\<close> of the language.\<close>

fun times_number :: "number \<Rightarrow> number \<Rightarrow> number" where
  "times_number NaN _ = NaN"
| "times_number _ NaN = NaN"
| "times_number (Fin a) (Fin b) = Fin (a * b)"
| "times_number (Fin a) PosInf = (if a = 0 then NaN else if 0 < a then PosInf else NegInf)"
| "times_number (Fin a) NegInf = (if a = 0 then NaN else if 0 < a then NegInf else PosInf)"
| "times_number PosInf (Fin b) = (if b = 0 then NaN else if 0 < b then PosInf else NegInf)"
| "times_number NegInf (Fin b) = (if b = 0 then NaN else if 0 < b then NegInf else PosInf)"
| "times_number PosInf PosInf = PosInf"
| "times_number PosInf NegInf = NegInf"
| "times_number NegInf PosInf = NegInf"
| "times_number NegInf NegInf = PosInf"

text \<open>\<open>Math.max\<close> of two arguments, \<open>Math.round\<close> (halves go up), and \<open>Math.pow(2, n)\<close>.\<close>

fun Math_max :: "number \<Rightarrow> number \<Rightarrow> number" where
  "Math_max NaN _ = NaN"
| "Math_max _ NaN = NaN"
| "Math_max PosInf _ = PosInf"
| "Math_max _ PosInf = PosInf"
| "Math_max NegInf y = y"
| "Math_max x NegInf = x"
| "Math_max (Fin a) (Fin b) = Fin (max a b)"

fun Math_round :: "number \<Rightarrow> number" where
  "Math_round (Fin x) = Fin (of_int \<lfloor>x + 1 / 2\<rfloor>)"
| "Math_round n = n"

definition Math_pow2 :: "nat \<Rightarrow> number" where
  "Math_pow2 n = Fin (2 ^ n)"

fun minus_number :: "number \<Rightarrow> number \<Rightarrow> number" where
  "minus_number (Fin a) (Fin b) = Fin (a - b)"
| "minus_number NaN _ = NaN"
| "minus_number _ NaN = NaN"
| "minus_number PosInf PosInf = NaN"
| "minus_number NegInf NegInf = NaN"
| "minus_number PosInf _ = PosInf"
| "minus_number NegInf _ = NegInf"
| "minus_number (Fin a) PosInf = NegInf"
| "minus_number (Fin a) NegInf = PosInf"

fun uminus_number :: "number \<Rightarrow> number" where
  "uminus_number (Fin a) = Fin (- a)"
| "uminus_number PosInf = NegInf"
| "uminus_number NegInf = PosInf"
| "uminus_number NaN = NaN"

text \<open>
  The classes of composite values (\<open>Cartesian2\<close> ... \<open>Matrix4\<close>), the values of the
  language that the feature table handles, and the conversion of a value to a number
  where the source applies arithmetic to it.
\<close>

datatype classType = Cartesian2 | Cartesian3 | Cartesian4 | Matrix2 | Matrix3 | Matrix4

datatype "value" =
    JUndefined
  | JNull
  | JBool bool
  | JNum number
  | JStr string
  | JArr "value list"
  | JObj "(string \<times> value) list"
  | JInst classType "value list"

text \<open>
  \<open>toNumber\<close>: what arithmetic makes of a value. The parameters it is applied to are
  documented as numbers; the parsing of strings and the conversion of objects are not
  represented and give \<open>NaN\<close>.
\<close>

fun toNumber :: "value \<Rightarrow> number" where
  "toNumber (JNum n) = n"
| "toNumber JNull = Fin 0"
| "toNumber (JBool b) = Fin (if b then 1 else 0)"
| "toNumber _ = NaN"

text \<open>\<open>clone(value, true)\<close>: a deep copy. Values are immutable trees here, so the copy of a
  value is the value; the copy of an array object is a new object (see the store below).\<close>

definition clone :: "value \<Rightarrow> value" where
  "clone v = v"

text \<open>
  The errors raised. \<open>DeveloperError\<close> is raised by the checks of a debug build, the
  code between the markers \<open>includeStart('debug', pragmas.debug)\<close> and \<open>includeEnd\<close>,
  which a release build leaves out: the functions that have such checks take the
  parameter \<open>debug\<close>. \<open>TypeCheck\<close> is the failure of \<open>Check.typeOf\<close>, which tests the
  JavaScript type of an argument; the arguments of the model are typed, so the one such
  check that can fail is on a field that may be undefined. \<open>TypeError\<close> is raised by the
  language when a field of \<open>undefined\<close> is read or a value that is no function is called.
\<close>

datatype devError = OutOfRange | UnknownProperty | ShapeMismatch | TypeCheck

datatype error = DeveloperError devError | TypeError

section \<open>Component datatypes and normalisation\<close>

text \<open>The constants of \<open>ComponentDatatype\<close>; \<open>INT32\<close> stands for \<open>ComponentDatatype.INT\<close>.\<close>

datatype componentType =
  BYTE | UNSIGNED_BYTE | SHORT | UNSIGNED_SHORT | INT32 | UNSIGNED_INT | FLOAT | DOUBLE

text \<open>
  Modelled from the spec: \<open>ComponentDatatype.getSizeInBytes\<close> is not among the sources;
  the signed and unsigned integer types have byte widths 1, 2 and 4.
\<close>

fun getSizeInBytes :: "componentType \<Rightarrow> nat" where
  "getSizeInBytes BYTE = 1"
| "getSizeInBytes UNSIGNED_BYTE = 1"
| "getSizeInBytes SHORT = 2"
| "getSizeInBytes UNSIGNED_SHORT = 2"
| "getSizeInBytes INT32 = 4"
| "getSizeInBytes UNSIGNED_INT = 4"
| "getSizeInBytes FLOAT = 4"
| "getSizeInBytes DOUBLE = 8"

definition isSignedComponentType :: "componentType \<Rightarrow> bool" where
  "isSignedComponentType componentType =
     (componentType = BYTE \<or> componentType = SHORT \<or> componentType = INT32)"

definition isUnsignedComponentType :: "componentType \<Rightarrow> bool" where
  "isUnsignedComponentType componentType =
     (componentType = UNSIGNED_BYTE \<or> componentType = UNSIGNED_SHORT \<or>
      componentType = UNSIGNED_INT)"

definition isNormalized :: "bool \<Rightarrow> componentType \<Rightarrow> bool" where
  "isNormalized normalized componentType =
     (normalized \<and>
      (isSignedComponentType componentType \<or> isUnsignedComponentType componentType))"

definition getMaximumValue :: "componentType \<Rightarrow> number" where
  "getMaximumValue componentType =
     (let bitDepth = getSizeInBytes componentType in
      if isSignedComponentType componentType
        then minus_number (Math_pow2 (bitDepth - 1)) (Fin 1)
      else if isUnsignedComponentType componentType
        then minus_number (Math_pow2 bitDepth) (Fin 1)
      else PosInf)"

definition getLowestValue :: "componentType \<Rightarrow> number" where
  "getLowestValue componentType =
     (let bitDepth = getSizeInBytes componentType in
      if isSignedComponentType componentType
        then uminus_number (Math_pow2 (bitDepth - 1))
      else if isUnsignedComponentType componentType
        then Fin 0
      else NegInf)"

section \<open>Typed arrays and composite classes\<close>

text \<open>
  A typed array is the list of its elements. A read outside its bounds gives
  \<open>undefined\<close>; a write outside its bounds is dropped; a write inside converts the number
  to the element type (integer element types truncate towards zero and wrap around modulo
  their width, \<open>NaN\<close> and the infinities become 0; the rounding of the floating-point
  element types is not represented).
\<close>

type_synonym typedArray = "number list"

definition array_get :: "value list \<Rightarrow> int \<Rightarrow> value" where
  "array_get xs i = (if 0 \<le> i \<and> i < int (length xs) then xs ! nat i else JUndefined)"

definition typedArray_get :: "typedArray \<Rightarrow> int \<Rightarrow> value" where
  "typedArray_get ta i = array_get (map JNum ta) i"

fun toInteger :: "number \<Rightarrow> int" where
  "toInteger (Fin x) = (if 0 \<le> x then \<lfloor>x\<rfloor> else \<lceil>x\<rceil>)"
| "toInteger _ = 0"

definition toElement :: "componentType \<Rightarrow> number \<Rightarrow> number" where
  "toElement componentType n =
     (if componentType = FLOAT \<or> componentType = DOUBLE then n
      else
        (let bits = 8 * getSizeInBytes componentType;
             m = toInteger n mod 2 ^ bits
         in Fin (of_int (if isSignedComponentType componentType \<and> 2 ^ (bits - 1) \<le> m
                         then m - 2 ^ bits else m))))"

definition typedArray_set :: "componentType \<Rightarrow> typedArray \<Rightarrow> int \<Rightarrow> value \<Rightarrow> typedArray" where
  "typedArray_set componentType ta i v =
     (if 0 \<le> i \<and> i < int (length ta)
      then ta[nat i := toElement componentType (toNumber v)] else ta)"

text \<open>
  Modelled from the spec: \<open>ComponentDatatype.createTypedArray\<close> is not among the sources;
  it allocates a dense zero-filled buffer of the given number of components.
\<close>

definition createTypedArray :: "componentType \<Rightarrow> nat \<Rightarrow> typedArray" where
  "createTypedArray componentType n = replicate n (Fin 0)"

text \<open>
  Modelled from the spec: the classes \<open>Cartesian2\<close> ... \<open>Matrix4\<close> are not among the
  sources. A composite value is an instance of its class holding \<open>packedLength\<close>
  components; \<open>ZERO\<close> is the zero vector or matrix; \<open>clone\<close> and \<open>unpack\<close> return the
  result handle when one is supplied, overwritten, and a new instance otherwise, so the
  value returned does not depend on the handle; \<open>pack\<close> stores the components of a value
  into consecutive slots.
\<close>

fun packedLength :: "classType \<Rightarrow> nat" where
  "packedLength Cartesian2 = 2"
| "packedLength Cartesian3 = 3"
| "packedLength Cartesian4 = 4"
| "packedLength Matrix2 = 4"
| "packedLength Matrix3 = 9"
| "packedLength Matrix4 = 16"

definition ZERO :: "classType \<Rightarrow> value" where
  "ZERO cls = JInst cls (replicate (packedLength cls) (JNum (Fin 0)))"

fun components :: "value \<Rightarrow> value list" where
  "components (JInst c xs) = xs"
| "components _ = []"

definition classType_clone :: "classType \<Rightarrow> value \<Rightarrow> value option \<Rightarrow> value" where
  "classType_clone cls v result = JInst cls (components v)"

definition unpack :: "classType \<Rightarrow> value list \<Rightarrow> int \<Rightarrow> value option \<Rightarrow> value" where
  "unpack cls array startingIndex result =
     JInst cls (map (\<lambda>k. array_get array (startingIndex + int k)) [0..<packedLength cls])"

definition pack :: "classType \<Rightarrow> value \<Rightarrow> componentType \<Rightarrow> typedArray \<Rightarrow> int \<Rightarrow> typedArray" where
  "pack cls v componentType ta startingIndex =
     fold (\<lambda>k a. typedArray_set componentType a (startingIndex + int k)
                    (array_get (components v) (int k)))
          [0..<packedLength cls] ta"

section \<open>The accessor (binary) property\<close>

text \<open>
  Modelled from the spec: \<open>GltfFeatureTablePropertyType\<close> is not among the sources. The
  declared value types are the scalar number, the vectors, the square matrices, string,
  boolean, and any structured value.
\<close>

datatype propertyType = NUMBER | VEC2 | VEC3 | VEC4 | MAT2 | MAT3 | MAT4 | STRING | BOOLEAN | ANY

text \<open>
  The fields of a \<open>GltfFeatureTableAccessorProperty\<close>, named as in the source without the
  leading underscore (\<open>ptype\<close> is \<open>_type\<close>). The typed array is held by value: that two
  accessors may view the same bytes is not represented.
\<close>

record accessorProperty =
  componentType :: componentType
  componentCount :: nat
  count :: nat
  classType :: "classType option"
  typedArray :: "typedArray option"
  signed :: bool
  normalized :: bool
  lowestValue :: number
  maximumValue :: number
  initializedWithZeros :: bool
  name :: string
  semantic :: "string option"
  ptype :: propertyType
  extras :: "value option"

definition decodeValue :: "accessorProperty \<Rightarrow> value \<Rightarrow> value" where
  "decodeValue property v =
     (if \<not> normalized property then v
      else if signed property
        then JNum (Math_max (divide_number (toNumber v) (maximumValue property)) (Fin (- 1)))
      else JNum (divide_number (toNumber v) (maximumValue property)))"

definition encodeValue :: "accessorProperty \<Rightarrow> value \<Rightarrow> value" where
  "encodeValue property v =
     (if \<not> normalized property then v
      else JNum (Math_round (times_number (toNumber v) (maximumValue property))))"

text \<open>
  \<open>getValue\<close>. The scratch array \<open>packedArray\<close> of the module is written and read back
  within one call, so it is a local list here. Calling a method of an undefined
  \<open>classType\<close> raises \<open>TypeError\<close>.
\<close>

definition getValue :: "accessorProperty \<Rightarrow> int \<Rightarrow> value option \<Rightarrow> error + value" where
  "getValue p featureId result =
     (let startingIndex = featureId * int (componentCount p) in
      if initializedWithZeros p then
        (if componentCount p = 1 then Inr (JNum (Fin 0))
         else (case classType p of
                 None \<Rightarrow> Inl TypeError
               | Some cls \<Rightarrow> Inr (classType_clone cls (ZERO cls) result)))
      else
        (case typedArray p of
           None \<Rightarrow> Inr JUndefined
         | Some ta \<Rightarrow>
             if componentCount p = 1 then
               (if normalized p then Inr (decodeValue p (typedArray_get ta startingIndex))
                else Inr (typedArray_get ta startingIndex))
             else
               (case classType p of
                  None \<Rightarrow> Inl TypeError
                | Some cls \<Rightarrow>
                    if normalized p then
                      (let packedArray =
                             map (\<lambda>i. decodeValue p (typedArray_get ta (startingIndex + int i)))
                                 [0..<packedLength cls]
                       in Inr (unpack cls packedArray 0 result))
                    else Inr (unpack cls (map JNum ta) startingIndex result))))"

text \<open>\<open>setValue\<close> returns the property as the call leaves it.\<close>

definition setValue :: "accessorProperty \<Rightarrow> int \<Rightarrow> value \<Rightarrow> error + accessorProperty" where
  "setValue p featureId v =
     (let startingIndex = featureId * int (componentCount p);
          p1 = (if initializedWithZeros p
                then p\<lparr>typedArray :=
                         Some (createTypedArray (componentType p) (componentCount p * count p)),
                       initializedWithZeros := False\<rparr>
                else p)
      in case typedArray p1 of
           None \<Rightarrow> Inr p1
         | Some ta \<Rightarrow>
             if componentCount p = 1 then
               (if normalized p
                then Inr (p1\<lparr>typedArray :=
                     Some (typedArray_set (componentType p) ta startingIndex (encodeValue p v))\<rparr>)
                else Inr (p1\<lparr>typedArray :=
                     Some (typedArray_set (componentType p) ta startingIndex v)\<rparr>))
             else
               (case classType p of
                  None \<Rightarrow> Inl TypeError
                | Some cls \<Rightarrow>
                    (let ta1 = pack cls v (componentType p) ta startingIndex;
                         ta2 = (if normalized p
                                then fold (\<lambda>i a.
                                       typedArray_set (componentType p) a (startingIndex + int i)
                                         (encodeValue p (typedArray_get a (startingIndex + int i))))
                                     [0..<packedLength cls] ta1
                                else ta1)
                     in Inr (p1\<lparr>typedArray := Some ta2\<rparr>))))"

section \<open>The store of array objects\<close>

text \<open>
  The value sequence of an array property is a JavaScript array object, which the cache
  and several properties may reference at once. Such objects live in a store and are
  named by their address; allocation appends, so a new address is never one in use.
  A write to an index past the end extends the array with holes, which read as
  \<open>undefined\<close>; a write to a negative index sets a property that is no element.
\<close>

type_synonym ref = nat

type_synonym store = "value list list"

definition store_get :: "store \<Rightarrow> ref \<Rightarrow> value list option" where
  "store_get s r = (if r < length s then Some (s ! r) else None)"

definition store_set :: "store \<Rightarrow> ref \<Rightarrow> value list \<Rightarrow> store" where
  "store_set s r xs = s[r := xs]"

definition alloc :: "store \<Rightarrow> value list \<Rightarrow> ref \<times> store" where
  "alloc s xs = (length s, s @ [xs])"

definition array_set :: "value list \<Rightarrow> int \<Rightarrow> value \<Rightarrow> value list" where
  "array_set xs i v =
     (if i < 0 then xs
      else if nat i < length xs then xs[nat i := v]
      else xs @ replicate (nat i - length xs) JUndefined @ [v])"

text \<open>\<open>clone(values, true)\<close> of an array object: a new object holding copies of the elements.\<close>

definition clone_array :: "store \<Rightarrow> ref \<Rightarrow> ref \<times> store" where
  "clone_array s r =
     (case store_get s r of
        None \<Rightarrow> alloc s []
      | Some xs \<Rightarrow> alloc s (map clone xs))"

section \<open>The feature metadata cache\<close>

text \<open>
  A cached buffer is a byte view (\<open>Uint8Array\<close>); a cached document is a JSON object,
  mapping each key to the address of its value sequence in the store. The cache keeps
  one promise per URI in flight. A promise owns the handlers chained to it, in the order
  of the calls that chained them: the handler of \<open>getExternalValues\<close> remembers its key.
  \<open>fetchLog\<close> is not a field of the object: it records the calls of \<open>fetchJson\<close> and
  \<open>fetchArrayBuffer\<close>, the requests the cache issues to the transport.
  \<open>resource\<close> is \<open>getDerivedResource\<close> of the base resource followed by \<open>url\<close>; the
  URI given to it may be undefined. The options of \<open>getExternalValues\<close> are an object
  with the strings \<open>uri\<close> and \<open>key\<close>; of the options of \<open>getExternalBuffer\<close> the field
  \<open>uri\<close> may be undefined.
\<close>

record bufferSource =
  source_byteOffset :: nat
  source_bytes :: "nat list"

type_synonym document = "string \<Rightarrow> ref option"

datatype payload = JsonDoc document | ArrayBuffer "nat list"

datatype outcome = Fulfilled payload | Rejected

datatype handler = ValuesHandler string | BufferHandler

datatype fetchKind = FetchJson | FetchArrayBuffer

record cache =
  resource :: "string option \<Rightarrow> string"
  jsonCache :: "string \<Rightarrow> document option"
  bufferCache :: "string \<Rightarrow> bufferSource option"
  promiseCache :: "string \<Rightarrow> handler list option"
  fetchLog :: "(fetchKind \<times> string) list"

text \<open>
  What a call returns: the cached value itself, or the promise chained to the one in
  flight for the URI (named by the URI and the position of its handler).
\<close>

datatype 'a reply = Immediate 'a | Deferred string nat

definition getExternalValues :: "cache \<Rightarrow> string \<Rightarrow> string \<Rightarrow> (ref option) reply \<times> cache" where
  "getExternalValues c uri key =
     (let externalUri = resource c (Some uri) in
      case jsonCache c externalUri of
        Some json \<Rightarrow> (Immediate (json key), c)
      | None \<Rightarrow>
          (case promiseCache c externalUri of
             None \<Rightarrow>
               (Deferred externalUri 0,
                c\<lparr>promiseCache := (promiseCache c)(externalUri \<mapsto> [ValuesHandler key]),
                  fetchLog := fetchLog c @ [(FetchJson, externalUri)]\<rparr>)
           | Some hs \<Rightarrow>
               (Deferred externalUri (length hs),
                c\<lparr>promiseCache := (promiseCache c)(externalUri \<mapsto> hs @ [ValuesHandler key])\<rparr>)))"

definition getExternalBuffer ::
  "bool \<Rightarrow> cache \<Rightarrow> string option \<Rightarrow> error + (bufferSource reply \<times> cache)" where
  "getExternalBuffer debug c uri =
     (if debug \<and> uri = None then Inl (DeveloperError TypeCheck)
      else
        (let externalUri = resource c uri in
         case bufferCache c externalUri of
           Some b \<Rightarrow> Inr (Immediate b, c)
         | None \<Rightarrow>
             (case promiseCache c externalUri of
                None \<Rightarrow>
                  Inr (Deferred externalUri 0,
                       c\<lparr>promiseCache := (promiseCache c)(externalUri \<mapsto> [BufferHandler]),
                         fetchLog := fetchLog c @ [(FetchArrayBuffer, externalUri)]\<rparr>)
              | Some hs \<Rightarrow>
                  Inr (Deferred externalUri (length hs),
                       c\<lparr>promiseCache :=
                           (promiseCache c)(externalUri \<mapsto> hs @ [BufferHandler])\<rparr>))))"

text \<open>
  The handlers run when the promise settles. A handler given a payload of the other
  kind reads it as the language does: an array buffer has none of the keys of a
  document, and \<open>new Uint8Array\<close> of a document is empty.
\<close>

fun asDocument :: "payload \<Rightarrow> document" where
  "asDocument (JsonDoc d) = d"
| "asDocument (ArrayBuffer bs) = (\<lambda>k. None)"

fun asUint8Array :: "payload \<Rightarrow> bufferSource" where
  "asUint8Array (ArrayBuffer bs) = \<lparr>source_byteOffset = 0, source_bytes = bs\<rparr>"
| "asUint8Array (JsonDoc d) = \<lparr>source_byteOffset = 0, source_bytes = []\<rparr>"

datatype delivered = ValuesResult "ref option" | BufferResult "bufferSource option"

fun run_handler :: "string \<Rightarrow> outcome \<Rightarrow> handler \<Rightarrow> cache \<Rightarrow> delivered \<times> cache" where
  "run_handler externalUri (Fulfilled json) (ValuesHandler key) c =
     (ValuesResult (asDocument json key),
      (case promiseCache c externalUri of
         None \<Rightarrow> c
       | Some hs \<Rightarrow> c\<lparr>jsonCache := (jsonCache c)(externalUri \<mapsto> asDocument json),
                      promiseCache := (promiseCache c)(externalUri := None)\<rparr>))"
| "run_handler externalUri Rejected (ValuesHandler key) c =
     (ValuesResult None,
      (case promiseCache c externalUri of
         None \<Rightarrow> c
       | Some hs \<Rightarrow> c\<lparr>jsonCache := (jsonCache c)(externalUri \<mapsto> (\<lambda>k. None)),
                      promiseCache := (promiseCache c)(externalUri := None)\<rparr>))"
| "run_handler externalUri (Fulfilled arrayBuffer) BufferHandler c =
     (let c1 = (case promiseCache c externalUri of
                  None \<Rightarrow> c
                | Some hs \<Rightarrow>
                    c\<lparr>bufferCache := (bufferCache c)(externalUri \<mapsto> asUint8Array arrayBuffer),
                      promiseCache := (promiseCache c)(externalUri := None)\<rparr>)
      in (BufferResult (bufferCache c1 externalUri), c1))"
| "run_handler externalUri Rejected BufferHandler c =
     (let c1 = (case promiseCache c externalUri of
                  None \<Rightarrow> c
                | Some hs \<Rightarrow>
                    c\<lparr>bufferCache := (bufferCache c)(externalUri \<mapsto>
                                       \<lparr>source_byteOffset = 0, source_bytes = []\<rparr>),
                      promiseCache := (promiseCache c)(externalUri := None)\<rparr>)
      in (BufferResult (bufferCache c1 externalUri), c1))"

fun run_handlers :: "string \<Rightarrow> outcome \<Rightarrow> handler list \<Rightarrow> cache \<Rightarrow> delivered list \<times> cache" where
  "run_handlers externalUri out [] c = ([], c)"
| "run_handlers externalUri out (h # hs) c =
     (let (d, c1) = run_handler externalUri out h c;
          (ds, c2) = run_handlers externalUri out hs c1
      in (d # ds, c2))"

text \<open>The fetch in flight for a URI settles: its handlers run in order, each delivering
  the value its caller's promise resolves to.\<close>

definition settle :: "cache \<Rightarrow> string \<Rightarrow> outcome \<Rightarrow> delivered list \<times> cache" where
  "settle c externalUri out =
     (case promiseCache c externalUri of
        None \<Rightarrow> ([], c)
      | Some hs \<Rightarrow> run_handlers externalUri out hs c)"

text \<open>A history of the cache: requests by its two operations, each for a URI, and
  fetches settling. A request for a URI passes the check of a debug build.\<close>

datatype event =
    RequestValues string string
  | RequestBuffer string
  | Settle string outcome

fun step :: "cache \<Rightarrow> event \<Rightarrow> cache" where
  "step c (RequestValues uri key) = snd (getExternalValues c uri key)"
| "step c (RequestBuffer uri) =
     (case getExternalBuffer True c (Some uri) of Inl e \<Rightarrow> c | Inr (r, c1) \<Rightarrow> c1)"
| "step c (Settle externalUri out) = snd (settle c externalUri out)"


definition new_cache :: "(string option \<Rightarrow> string) \<Rightarrow> cache" where
  "new_cache res =
     \<lparr>resource = res, jsonCache = (\<lambda>u. None), bufferCache = (\<lambda>u. None),
      promiseCache = (\<lambda>u. None), fetchLog = []\<rparr>"


section \<open>The glTF document and the construction of an accessor property\<close>

text \<open>
  The parts of the glTF JSON that the constructors read. \<open>accessor_bufferView\<close> is the
  field \<open>bufferView\<close> of an accessor and \<open>accessor_bufferViewId\<close> its field
  \<open>bufferViewId\<close>: the source reads both. \<open>buffer_source\<close> is
  \<open>extras._pipeline.source\<close> of a buffer, undefined when any link of that chain is.
  An absent \<open>normalized\<close> flag is false.
\<close>

datatype accessorType =
  TYPE_SCALAR | TYPE_VEC2 | TYPE_VEC3 | TYPE_VEC4 | TYPE_MAT2 | TYPE_MAT3 | TYPE_MAT4

record accessor =
  accessor_type :: accessorType
  accessor_componentType :: componentType
  accessor_count :: nat
  accessor_normalized :: bool
  accessor_bufferView :: "nat option"
  accessor_bufferViewId :: "nat option"
  accessor_byteOffset :: nat

record bufferView =
  bufferView_buffer :: nat
  bufferView_byteOffset :: nat

record buffer =
  buffer_uri :: string
  buffer_source :: "bufferSource option"

record gltf =
  accessors :: "accessor list"
  bufferViews :: "bufferView list"
  buffers :: "buffer list"

record external =
  external_uri :: string
  external_key :: string

record arrayJson =
  array_type :: string
  array_values :: "value list option"
  array_external :: "external option"

record featureProperty =
  property_descriptor :: "value option"
  property_accessor :: "nat option"
  property_array :: "arrayJson option"
  property_semantic :: "string option"
  property_extras :: "value option"

definition lookup :: "'a list \<Rightarrow> nat \<Rightarrow> 'a option" where
  "lookup xs i = (if i < length xs then Some (xs ! i) else None)"

text \<open>
  Modelled from the spec: \<open>getBinaryAccessor\<close> is not among the sources. It gives the
  number of components of the accessor's type (1, 2, 3, 4, 4, 9, 16), the class of its
  composite values (none for a scalar), and the function that views a buffer source as
  a typed array of the component type. The last is \<open>ComponentDatatype.createArrayBufferView\<close>,
  taken as the parameter \<open>view\<close>: component type, source, byte offset, number of components.
\<close>

type_synonym view = "componentType \<Rightarrow> bufferSource \<Rightarrow> nat \<Rightarrow> nat \<Rightarrow> typedArray"

record binaryAccessor =
  componentsPerAttribute :: nat
  accessor_classType :: "classType option"
  createArrayBufferView :: "bufferSource \<Rightarrow> nat \<Rightarrow> nat \<Rightarrow> typedArray"

fun componentsPerType :: "accessorType \<Rightarrow> nat" where
  "componentsPerType TYPE_SCALAR = 1"
| "componentsPerType TYPE_VEC2 = 2"
| "componentsPerType TYPE_VEC3 = 3"
| "componentsPerType TYPE_VEC4 = 4"
| "componentsPerType TYPE_MAT2 = 4"
| "componentsPerType TYPE_MAT3 = 9"
| "componentsPerType TYPE_MAT4 = 16"

fun classPerType :: "accessorType \<Rightarrow> classType option" where
  "classPerType TYPE_SCALAR = None"
| "classPerType TYPE_VEC2 = Some Cartesian2"
| "classPerType TYPE_VEC3 = Some Cartesian3"
| "classPerType TYPE_VEC4 = Some Cartesian4"
| "classPerType TYPE_MAT2 = Some Matrix2"
| "classPerType TYPE_MAT3 = Some Matrix3"
| "classPerType TYPE_MAT4 = Some Matrix4"

definition getBinaryAccessor :: "view \<Rightarrow> accessor \<Rightarrow> binaryAccessor" where
  "getBinaryAccessor view a =
     \<lparr>componentsPerAttribute = componentsPerType (accessor_type a),
      accessor_classType = classPerType (accessor_type a),
      createArrayBufferView =
        (\<lambda>src byteOffset len.
           view (accessor_componentType a) src byteOffset
                (componentsPerType (accessor_type a) * len))\<rparr>"

text \<open>Modelled from the spec: \<open>GltfFeatureTablePropertyType.getTypeFromAccessorType\<close> and
  \<open>getTypeFromArrayType\<close> are not among the sources; they name the declared value type.\<close>

fun getTypeFromAccessorType :: "accessorType \<Rightarrow> propertyType" where
  "getTypeFromAccessorType TYPE_SCALAR = NUMBER"
| "getTypeFromAccessorType TYPE_VEC2 = VEC2"
| "getTypeFromAccessorType TYPE_VEC3 = VEC3"
| "getTypeFromAccessorType TYPE_VEC4 = VEC4"
| "getTypeFromAccessorType TYPE_MAT2 = MAT2"
| "getTypeFromAccessorType TYPE_MAT3 = MAT3"
| "getTypeFromAccessorType TYPE_MAT4 = MAT4"

definition getTypeFromArrayType :: "string \<Rightarrow> propertyType" where
  "getTypeFromArrayType t =
     (if t = ''string'' then STRING
      else if t = ''number'' then NUMBER
      else if t = ''boolean'' then BOOLEAN
      else ANY)"

text \<open>Reading a field of \<open>undefined\<close> raises \<open>TypeError\<close>: an index that names no
  buffer view does so in \<open>getBuffer\<close> and in \<open>getTypedArrayForAccessor\<close>.\<close>

definition getBuffer :: "gltf \<Rightarrow> accessor \<Rightarrow> error + buffer option" where
  "getBuffer g a =
     (case accessor_bufferView a of
        None \<Rightarrow> Inr None
      | Some bufferViewId \<Rightarrow>
          (case lookup (bufferViews g) bufferViewId of
             None \<Rightarrow> Inl TypeError
           | Some bv \<Rightarrow> Inr (lookup (buffers g) (bufferView_buffer bv))))"

definition getBufferSource :: "gltf \<Rightarrow> accessor \<Rightarrow> error + bufferSource option" where
  "getBufferSource g a =
     (case getBuffer g a of
        Inl e \<Rightarrow> Inl e
      | Inr None \<Rightarrow> Inr None
      | Inr (Some b) \<Rightarrow> Inr (buffer_source b))"

definition getTypedArrayForAccessor ::
  "gltf \<Rightarrow> accessor \<Rightarrow> bufferSource option \<Rightarrow> binaryAccessor \<Rightarrow> error + typedArray option" where
  "getTypedArrayForAccessor g a bufferSource ba =
     (case bufferSource of
        None \<Rightarrow> Inr None
      | Some src \<Rightarrow>
          (case accessor_bufferView a of
             None \<Rightarrow> Inr None
           | Some i \<Rightarrow>
               (case lookup (bufferViews g) i of
                  None \<Rightarrow> Inl TypeError
                | Some bv \<Rightarrow>
                    (let byteOffset =
                           source_byteOffset src + bufferView_byteOffset bv + accessor_byteOffset a
                     in Inr (Some (createArrayBufferView ba src byteOffset (accessor_count a)))))))"

text \<open>
  The constructor. When no typed array can be made at once and the accessor has a
  buffer, it asks the cache for the buffer and chains the continuation
  \<open>bindExternalBuffer\<close> to the promise returned; a value that is no promise has no
  \<open>then\<close>, and calling it raises \<open>TypeError\<close>. The call is
  \<open>cache.getExternalBuffer(buffer.uri)\<close>: the options object it passes is the string
  \<open>buffer.uri\<close> itself, which has no field \<open>uri\<close>, so the URI that
  \<open>getExternalBuffer\<close> reads from its options is undefined. The result is the property
  as the constructor leaves it, and the cache after the request.
\<close>

definition GltfFeatureTableAccessorProperty ::
  "bool \<Rightarrow> view \<Rightarrow> gltf \<Rightarrow> string \<Rightarrow> featureProperty \<Rightarrow> cache
     \<Rightarrow> error + (accessorProperty \<times> cache)" where
  "GltfFeatureTableAccessorProperty debug view g nm property c =
     (case (case property_accessor property of
              None \<Rightarrow> None | Some accessorId \<Rightarrow> lookup (accessors g) accessorId) of
        None \<Rightarrow> Inl TypeError
      | Some a \<Rightarrow>
          (let ba = getBinaryAccessor view a in
           case getBuffer g a of
             Inl e \<Rightarrow> Inl e
           | Inr buf \<Rightarrow>
               (case getBufferSource g a of
                  Inl e \<Rightarrow> Inl e
                | Inr bufferSource \<Rightarrow>
                    (case getTypedArrayForAccessor g a bufferSource ba of
                       Inl e \<Rightarrow> Inl e
                     | Inr ta \<Rightarrow>
                         (case (case (ta, buf) of
                                  (None, Some b) \<Rightarrow>
                                    (case getExternalBuffer debug c None of
                                       Inl e \<Rightarrow> Inl e
                                     | Inr (Immediate x, c1) \<Rightarrow> Inl TypeError
                                     | Inr (Deferred u k, c1) \<Rightarrow> Inr c1)
                                | _ \<Rightarrow> Inr c) of
                            Inl e \<Rightarrow> Inl e
                          | Inr c1 \<Rightarrow>
                              Inr (\<lparr>componentType = accessor_componentType a,
                                    componentCount = componentsPerAttribute ba,
                                    count = accessor_count a,
                                    classType = accessor_classType ba,
                                    typedArray = ta,
                                    signed = isSignedComponentType (accessor_componentType a),
                                    normalized = isNormalized (accessor_normalized a)
                                                   (accessor_componentType a),
                                    lowestValue = getLowestValue (accessor_componentType a),
                                    maximumValue = getMaximumValue (accessor_componentType a),
                                    initializedWithZeros = (accessor_bufferViewId a = None),
                                    name = nm,
                                    semantic = property_semantic property,
                                    ptype = getTypeFromAccessorType (accessor_type a),
                                    extras = map_option clone (property_extras property)\<rparr>,
                                   c1))))))"

text \<open>The continuation chained in the constructor: it runs with the buffer source the
  cache delivers and binds the typed array made from it.\<close>

definition bindExternalBuffer ::
  "view \<Rightarrow> gltf \<Rightarrow> accessor \<Rightarrow> accessorProperty \<Rightarrow> bufferSource option \<Rightarrow> error + accessorProperty" where
  "bindExternalBuffer view g a p bufferSource =
     (case getTypedArrayForAccessor g a bufferSource (getBinaryAccessor view a) of
        Inl e \<Rightarrow> Inl e
      | Inr ta \<Rightarrow> Inr (p\<lparr>typedArray := ta\<rparr>))"

text \<open>A view of a source as unsigned bytes, for the documents evaluated below.\<close>

definition byteView :: view where
  "byteView ct src byteOffset n =
     map (\<lambda>b. Fin (real b)) (take n (drop byteOffset (source_bytes src)))"

section \<open>The array property\<close>

text \<open>
  The fields of a \<open>GltfFeatureTableArrayProperty\<close>: \<open>values\<close> is the address of the
  value sequence, or undefined. The fields shared with the accessor property carry the
  prefix \<open>array\<close>.
\<close>

record arrayProperty =
  "values" :: "ref option"
  fromCache :: bool
  arrayName :: string
  arraySemantic :: "string option"
  arrayType :: propertyType
  arrayExtras :: "value option"

text \<open>
  The constructor: reading \<open>external\<close> of an undefined \<open>array\<close> raises \<open>TypeError\<close>;
  an external array is requested from the cache and the continuation
  \<open>bindExternalValues\<close> chained to the promise returned (a value that is no promise has
  no \<open>then\<close>); the inline values are deep-copied into a new array object.
\<close>

definition GltfFeatureTableArrayProperty ::
  "gltf \<Rightarrow> string \<Rightarrow> featureProperty \<Rightarrow> cache \<Rightarrow> store
     \<Rightarrow> error + (arrayProperty \<times> cache \<times> store)" where
  "GltfFeatureTableArrayProperty g nm property c s =
     (case property_array property of
        None \<Rightarrow> Inl TypeError
      | Some array \<Rightarrow>
          (case (case array_external array of
                   None \<Rightarrow> Inr c
                 | Some ext \<Rightarrow>
                     (case getExternalValues c (external_uri ext) (external_key ext) of
                        (Immediate x, c1) \<Rightarrow> Inl TypeError
                      | (Deferred u k, c1) \<Rightarrow> Inr c1)) of
             Inl e \<Rightarrow> Inl e
           | Inr c1 \<Rightarrow>
               (let (vals, s1) =
                      (case array_values array of
                         None \<Rightarrow> (None, s)
                       | Some xs \<Rightarrow> (let (r, s') = alloc s (map clone xs) in (Some r, s')))
                in Inr (\<lparr>values = vals,
                         fromCache = False,
                         arrayName = nm,
                         arraySemantic = property_semantic property,
                         arrayType = getTypeFromArrayType (array_type array),
                         arrayExtras = map_option clone (property_extras property)\<rparr>,
                        c1, s1))))"

definition bindExternalValues :: "arrayProperty \<Rightarrow> ref option \<Rightarrow> arrayProperty" where
  "bindExternalValues p vals = p\<lparr>values := vals, fromCache := True\<rparr>"

text \<open>\<open>getValue\<close> and \<open>setValue\<close> of the array property. An address always names an
  object of the store; for an address that names none the functions read nothing and
  write nothing.\<close>

definition ArrayProperty_getValue :: "store \<Rightarrow> arrayProperty \<Rightarrow> int \<Rightarrow> value" where
  "ArrayProperty_getValue s p featureId =
     (case values p of
        None \<Rightarrow> JUndefined
      | Some r \<Rightarrow>
          (case store_get s r of
             None \<Rightarrow> JUndefined
           | Some xs \<Rightarrow> clone (array_get xs featureId)))"

definition ArrayProperty_setValue ::
  "store \<Rightarrow> arrayProperty \<Rightarrow> int \<Rightarrow> value \<Rightarrow> arrayProperty \<times> store" where
  "ArrayProperty_setValue s p featureId v =
     (case values p of
        None \<Rightarrow> (p, s)
      | Some r0 \<Rightarrow>
          (let (r, s1, p1) =
                 (if fromCache p
                  then (let (r', s') = clone_array s r0
                        in (r', s', p\<lparr>values := Some r', fromCache := False\<rparr>))
                  else (r0, s, p))
           in case store_get s1 r of
                None \<Rightarrow> (p1, s1)
              | Some xs \<Rightarrow> (p1, store_set s1 r (array_set xs featureId (clone v)))))"

section \<open>The feature table\<close>

text \<open>
  Modelled from the spec: \<open>GltfFeatureTableDescriptorProperty\<close> is not among the sources;
  the descriptor variant keeps its name and its JSON, and its construction neither
  fails nor uses the cache. Its type and its accessors are the parameter \<open>D\<close> of the
  functions of the table.
\<close>

record descriptorProperty =
  descriptorName :: string
  descriptorJson :: featureProperty

record descriptorClass =
  descriptorType :: "descriptorProperty \<Rightarrow> propertyType"
  descriptorGetValue :: "descriptorProperty \<Rightarrow> int \<Rightarrow> value option \<Rightarrow> error + value"
  descriptorSetValue :: "descriptorProperty \<Rightarrow> int \<Rightarrow> value \<Rightarrow> error + descriptorProperty"

definition GltfFeatureTableDescriptorProperty ::
  "gltf \<Rightarrow> string \<Rightarrow> featureProperty \<Rightarrow> descriptorProperty" where
  "GltfFeatureTableDescriptorProperty g nm property =
     \<lparr>descriptorName = nm, descriptorJson = property\<rparr>"

datatype property =
    DescriptorProperty descriptorProperty
  | BinaryProperty accessorProperty
  | ArrayProperty arrayProperty

record featureTableJson =
  featureProperties :: "(string \<times> featureProperty) list"
  json_featureCount :: "nat option"
  json_name :: string
  json_extras :: "value option"

text \<open>A \<open>GltfFeature\<close> is the pair of its table and its feature id; inside the table it
  is its id. An element of the array of features is a feature or \<open>undefined\<close>.\<close>

record featureTable =
  features :: "int option list option"
  properties :: "string \<Rightarrow> property option"
  featureCount :: "nat option"
  tableName :: string
  tableExtras :: "value option"

text \<open>The loop of the constructor over the entries of \<open>featureProperties\<close>: one entry.\<close>

definition constructProperty ::
  "bool \<Rightarrow> view \<Rightarrow> gltf \<Rightarrow> string \<Rightarrow> featureProperty \<Rightarrow> cache \<Rightarrow> store
     \<Rightarrow> error + (property \<times> cache \<times> store)" where
  "constructProperty debug view g nm property c s =
     (case property_descriptor property of
        Some d \<Rightarrow> Inr (DescriptorProperty (GltfFeatureTableDescriptorProperty g nm property), c, s)
      | None \<Rightarrow>
          (case property_accessor property of
             Some i \<Rightarrow>
               (case GltfFeatureTableAccessorProperty debug view g nm property c of
                  Inl e \<Rightarrow> Inl e
                | Inr (p, c1) \<Rightarrow> Inr (BinaryProperty p, c1, s))
           | None \<Rightarrow>
               (case GltfFeatureTableArrayProperty g nm property c s of
                  Inl e \<Rightarrow> Inl e
                | Inr (p, c1, s1) \<Rightarrow> Inr (ArrayProperty p, c1, s1))))"

fun constructProperties ::
  "bool \<Rightarrow> view \<Rightarrow> gltf \<Rightarrow> (string \<times> featureProperty) list
     \<Rightarrow> (string \<Rightarrow> property option) \<Rightarrow> cache \<Rightarrow> store
     \<Rightarrow> error + ((string \<Rightarrow> property option) \<times> cache \<times> store)" where
  "constructProperties debug view g [] props c s = Inr (props, c, s)"
| "constructProperties debug view g ((nm, property) # rest) props c s =
     (case constructProperty debug view g nm property c s of
        Inl e \<Rightarrow> Inl e
      | Inr (p, c1, s1) \<Rightarrow>
          constructProperties debug view g rest (props(nm \<mapsto> p)) c1 s1)"

definition GltfFeatureTable ::
  "bool \<Rightarrow> view \<Rightarrow> gltf \<Rightarrow> featureTableJson \<Rightarrow> cache \<Rightarrow> store
     \<Rightarrow> error + (featureTable \<times> cache \<times> store)" where
  "GltfFeatureTable debug view g ft c s =
     (case constructProperties debug view g (featureProperties ft) (\<lambda>n. None) c s of
        Inl e \<Rightarrow> Inl e
      | Inr (props, c1, s1) \<Rightarrow>
          Inr (\<lparr>features = None,
                properties = props,
                featureCount = json_featureCount ft,
                tableName = json_name ft,
                tableExtras = map_option clone (json_extras ft)\<rparr>, c1, s1))"

definition checkFeatureId :: "int \<Rightarrow> nat option \<Rightarrow> error + unit" where
  "checkFeatureId featureId fc =
     (case fc of
        None \<Rightarrow> Inl (DeveloperError OutOfRange)
      | Some n \<Rightarrow>
          if featureId < 0 \<or> featureId > int n then Inl (DeveloperError OutOfRange)
          else Inr ())"

text \<open>\<open>new Array(featureCount)\<close> filled by the loop; for an undefined count the array
  is \<open>[undefined]\<close> and the loop does not run.\<close>

definition createFeatures :: "featureTable \<Rightarrow> featureTable" where
  "createFeatures t =
     (case features t of
        Some fs \<Rightarrow> t
      | None \<Rightarrow>
          t\<lparr>features :=
              Some (case featureCount t of
                      None \<Rightarrow> [None]
                    | Some n \<Rightarrow> map (\<lambda>i. Some (int i)) [0..<n])\<rparr>)"

text \<open>\<open>getFeature\<close> returns the element at the index, \<open>undefined\<close> (\<open>None\<close>) outside the
  array, and the table with its features created.\<close>

definition getFeature ::
  "bool \<Rightarrow> featureTable \<Rightarrow> int \<Rightarrow> error + (int option \<times> featureTable)" where
  "getFeature debug t featureId =
     (case (if debug then checkFeatureId featureId (featureCount t) else Inr ()) of
        Inl e \<Rightarrow> Inl e
      | Inr u \<Rightarrow>
          (let t1 = createFeatures t;
               fs = (case features t1 of None \<Rightarrow> [] | Some xs \<Rightarrow> xs)
           in Inr (if 0 \<le> featureId \<and> featureId < int (length fs)
                   then fs ! nat featureId else None, t1)))"

definition property_type :: "descriptorClass \<Rightarrow> property \<Rightarrow> propertyType" where
  "property_type D p =
     (case p of
        DescriptorProperty d \<Rightarrow> descriptorType D d
      | BinaryProperty b \<Rightarrow> ptype b
      | ArrayProperty a \<Rightarrow> arrayType a)"

fun instanceof :: "value \<Rightarrow> classType \<Rightarrow> bool" where
  "instanceof (JInst c xs) cls = (c = cls)"
| "instanceof _ cls = False"

text \<open>The chain of shape checks on a result handle or a value of a composite type.\<close>

definition compositeMismatch :: "propertyType \<Rightarrow> value \<Rightarrow> bool" where
  "compositeMismatch t v =
     (if t = VEC2 \<and> \<not> instanceof v Cartesian2 then True
      else if t = VEC3 \<and> \<not> instanceof v Cartesian3 then True
      else if t = VEC4 \<and> \<not> instanceof v Cartesian4 then True
      else if t = MAT2 \<and> \<not> instanceof v Matrix2 then True
      else if t = MAT3 \<and> \<not> instanceof v Matrix3 then True
      else if t = MAT4 \<and> \<not> instanceof v Matrix4 then True
      else False)"

fun typeof :: "value \<Rightarrow> string" where
  "typeof JUndefined = ''undefined''"
| "typeof (JBool b) = ''boolean''"
| "typeof (JNum n) = ''number''"
| "typeof (JStr s) = ''string''"
| "typeof _ = ''object''"

definition valueMismatch :: "propertyType \<Rightarrow> value \<Rightarrow> bool" where
  "valueMismatch t v =
     (if compositeMismatch t v then True
      else if t = STRING \<and> typeof v \<noteq> ''string'' then True
      else if t = NUMBER \<and> typeof v \<noteq> ''number'' then True
      else if t = BOOLEAN \<and> typeof v \<noteq> ''boolean'' then True
      else False)"

text \<open>In a release build the checks are left out, and calling \<open>getValue\<close> or \<open>setValue\<close>
  of an undefined property raises \<open>TypeError\<close>.\<close>

definition getPropertyValue ::
  "bool \<Rightarrow> descriptorClass \<Rightarrow> store \<Rightarrow> featureTable \<Rightarrow> int \<Rightarrow> string \<Rightarrow> value option
     \<Rightarrow> error + value" where
  "getPropertyValue debug D s t featureId nm result =
     (case (if debug then checkFeatureId featureId (featureCount t) else Inr ()) of
        Inl e \<Rightarrow> Inl e
      | Inr u \<Rightarrow>
          (case properties t nm of
             None \<Rightarrow> if debug then Inl (DeveloperError UnknownProperty) else Inl TypeError
           | Some property \<Rightarrow>
               if debug \<and>
                  (case result of
                     None \<Rightarrow> False
                   | Some r \<Rightarrow> compositeMismatch (property_type D property) r)
               then Inl (DeveloperError ShapeMismatch)
               else
                 (case property of
                    DescriptorProperty d \<Rightarrow> descriptorGetValue D d featureId result
                  | BinaryProperty b \<Rightarrow> getValue b featureId result
                  | ArrayProperty a \<Rightarrow> Inr (ArrayProperty_getValue s a featureId))))"

definition setPropertyValue ::
  "bool \<Rightarrow> descriptorClass \<Rightarrow> store \<Rightarrow> featureTable \<Rightarrow> int \<Rightarrow> string \<Rightarrow> value
     \<Rightarrow> error + (featureTable \<times> store)" where
  "setPropertyValue debug D s t featureId nm v =
     (case (if debug then checkFeatureId featureId (featureCount t) else Inr ()) of
        Inl e \<Rightarrow> Inl e
      | Inr u \<Rightarrow>
          (case properties t nm of
             None \<Rightarrow> if debug then Inl (DeveloperError UnknownProperty) else Inl TypeError
           | Some property \<Rightarrow>
               if debug \<and> valueMismatch (property_type D property) v
               then Inl (DeveloperError ShapeMismatch)
               else
                 (case property of
                    DescriptorProperty d \<Rightarrow>
                      (case descriptorSetValue D d featureId v of
                         Inl e \<Rightarrow> Inl e
                       | Inr d1 \<Rightarrow>
                           Inr (t\<lparr>properties := (properties t)(nm \<mapsto> DescriptorProperty d1)\<rparr>, s))
                  | BinaryProperty b \<Rightarrow>
                      (case setValue b featureId v of
                         Inl e \<Rightarrow> Inl e
                       | Inr b1 \<Rightarrow>
                           Inr (t\<lparr>properties := (properties t)(nm \<mapsto> BinaryProperty b1)\<rparr>, s))
                  | ArrayProperty a \<Rightarrow>
                      (let (a1, s1) = ArrayProperty_setValue s a featureId v
                       in Inr (t\<lparr>properties := (properties t)(nm \<mapsto> ArrayProperty a1)\<rparr>, s1)))))"

section \<open>Documents evaluated below\<close>

text \<open>Running one operation after another, stopping at the first error.\<close>

definition andThen :: "error + 'a \<Rightarrow> ('a \<Rightarrow> error + 'b) \<Rightarrow> error + 'b" where
  "andThen r f = (case r of Inl e \<Rightarrow> Inl e | Inr x \<Rightarrow> f x)"

text \<open>
  A base resource that leaves a URI as it is and resolves the undefined URI to its own
  location \<open>base\<close>; a glTF document with one scalar accessor, one buffer view and one
  buffer \<open>data.bin\<close>, and the feature property that names the accessor.
\<close>

definition baseResource :: "string option \<Rightarrow> string" where
  "baseResource uri = (case uri of None \<Rightarrow> ''base'' | Some u \<Rightarrow> u)"

definition scalarAccessor ::
  "componentType \<Rightarrow> bool \<Rightarrow> nat \<Rightarrow> nat option \<Rightarrow> nat option \<Rightarrow> accessor" where
  "scalarAccessor ct nrm n bv bvid =
     \<lparr>accessor_type = TYPE_SCALAR, accessor_componentType = ct, accessor_count = n,
      accessor_normalized = nrm, accessor_bufferView = bv, accessor_bufferViewId = bvid,
      accessor_byteOffset = 0\<rparr>"

definition document :: "accessor \<Rightarrow> bufferSource option \<Rightarrow> gltf" where
  "document a src =
     \<lparr>accessors = [a],
      bufferViews = [\<lparr>bufferView_buffer = 0, bufferView_byteOffset = 0\<rparr>],
      buffers = [\<lparr>buffer_uri = ''data.bin'', buffer_source = src\<rparr>]\<rparr>"

definition accessorEntry :: featureProperty where
  "accessorEntry =
     \<lparr>property_descriptor = None, property_accessor = Some 0, property_array = None,
      property_semantic = None, property_extras = None\<rparr>"

text \<open>
  \<open>embeddedBytes\<close>: a normalized unsigned-byte property over the embedded bytes 255, 0;
  its argument is the field \<open>bufferViewId\<close> of the accessor.
  \<open>externalBytes\<close>: an unsigned-byte property whose buffer is external, in a debug
  or a release build.
  \<open>signedBytes\<close>: a normalized signed-byte property with no buffer view.
\<close>

definition embeddedBytes :: "nat option \<Rightarrow> error + (accessorProperty \<times> cache)" where
  "embeddedBytes bvid =
     GltfFeatureTableAccessorProperty True byteView
       (document (scalarAccessor UNSIGNED_BYTE True 2 (Some 0) bvid)
                 (Some \<lparr>source_byteOffset = 0, source_bytes = [255, 0]\<rparr>))
       ''p'' accessorEntry (new_cache baseResource)"

definition externalAccessor :: accessor where
  "externalAccessor = scalarAccessor UNSIGNED_BYTE False 1 (Some 0) None"

definition externalBytes :: "bool \<Rightarrow> error + (accessorProperty \<times> cache)" where
  "externalBytes debug =
     GltfFeatureTableAccessorProperty debug byteView (document externalAccessor None)
       ''p'' accessorEntry (new_cache baseResource)"

definition signedBytes :: "error + (accessorProperty \<times> cache)" where
  "signedBytes =
     GltfFeatureTableAccessorProperty True byteView
       (document (scalarAccessor BYTE True 1 None None) None)
       ''p'' accessorEntry (new_cache baseResource)"

text \<open>\<open>signedInts\<close>: a normalized signed 32-bit property with no buffer view.
  \<open>unboundBytes\<close>: a property whose accessor has the field \<open>bufferViewId\<close> and no
  buffer view.\<close>

definition signedInts :: "error + (accessorProperty \<times> cache)" where
  "signedInts =
     GltfFeatureTableAccessorProperty True byteView
       (document (scalarAccessor INT32 True 1 None None) None)
       ''p'' accessorEntry (new_cache baseResource)"

definition unboundBytes :: "error + (accessorProperty \<times> cache)" where
  "unboundBytes =
     GltfFeatureTableAccessorProperty True byteView
       (document (scalarAccessor UNSIGNED_BYTE False 1 None (Some 0)) None)
       ''p'' accessorEntry (new_cache baseResource)"

text \<open>An array property that shares the sequence at address 0 with the cache.\<close>

definition sharedProperty :: arrayProperty where
  "sharedProperty =
     \<lparr>values = Some 0, fromCache = True, arrayName = ''height'', arraySemantic = None,
      arrayType = NUMBER, arrayExtras = None\<rparr>"

text \<open>An inline array property of three numbers, an entry with a descriptor and an
  accessor, an entry with none of the three fields, and the table built from a list of
  entries over a document with one accessor, with three features and an empty cache.\<close>

definition heightEntry :: featureProperty where
  "heightEntry =
     \<lparr>property_descriptor = None, property_accessor = None,
      property_array = Some \<lparr>array_type = ''number'',
                             array_values = Some [JNum (Fin 1), JNum (Fin 2), JNum (Fin 3)],
                             array_external = None\<rparr>,
      property_semantic = None, property_extras = None\<rparr>"

definition describedEntry :: featureProperty where
  "describedEntry =
     \<lparr>property_descriptor = Some JNull, property_accessor = Some 0, property_array = None,
      property_semantic = None, property_extras = None\<rparr>"

definition bareEntry :: featureProperty where
  "bareEntry =
     \<lparr>property_descriptor = None, property_accessor = None, property_array = None,
      property_semantic = None, property_extras = None\<rparr>"

definition tableOf ::
  "(string \<times> featureProperty) list \<Rightarrow> error + (featureTable \<times> cache \<times> store)" where
  "tableOf entries =
     GltfFeatureTable True byteView
       (document (scalarAccessor UNSIGNED_BYTE False 3 None None) None)
       \<lparr>featureProperties = entries, json_featureCount = Some 3, json_name = ''table'',
        json_extras = None\<rparr>
       (new_cache baseResource) []"




section \<open>Notions used to state and prove the properties of the cache\<close>







section \<open>Normalisation\<close>

lemmas number_defs = getMaximumValue_def getLowestValue_def isSignedComponentType_def
  isUnsignedComponentType_def isNormalized_def Math_pow2_def

lemmas accessor_defs = GltfFeatureTableAccessorProperty_def getBinaryAccessor_def getBuffer_def
  getBufferSource_def getTypedArrayForAccessor_def lookup_def getExternalBuffer_def new_cache_def
  byteView_def bindExternalBuffer_def

lemmas access_defs = getValue_def setValue_def decodeValue_def encodeValue_def
  typedArray_get_def typedArray_set_def array_get_def toElement_def createTypedArray_def

lemmas example_defs = scalarAccessor_def document_def accessorEntry_def andThen_def Let_def
  externalAccessor_def baseResource_def

text \<open>The maximum raises 2 to the size in bytes, less one for a signed type.\<close>

lemma unsigned_maximum:
  "isUnsignedComponentType ct \<Longrightarrow> getMaximumValue ct = Fin (2 ^ getSizeInBytes ct - 1)"
  by (cases ct) (simp_all add: number_defs)

lemma signed_maximum:
  "isSignedComponentType ct \<Longrightarrow> getMaximumValue ct = Fin (2 ^ (getSizeInBytes ct - 1) - 1)"
  by (cases ct) (simp_all add: number_defs)

text \<open>
  C2. For the unsigned byte (byte width 1) \<open>getMaximumValue\<close> is \<open>2 ^ 1 - 1 = 1\<close>, not
  \<open>2 ^ 8 - 1 = 255\<close>: it raises 2 to the size in bytes. A normalized unsigned-byte scalar
  property bound to the bytes 255, 0, with the implicit-zero flag clear, decodes the raw
  component 255 to 255 (not to 1) and the raw component 0 to 0.
\<close>

theorem unsigned_byte_divisor_is_one:
  "getMaximumValue UNSIGNED_BYTE = Fin 1 \<and>
   andThen (embeddedBytes (Some 0))
     (\<lambda>(p, c). Inr (typedArray p, normalized p, componentCount p, maximumValue p,
                     initializedWithZeros p))
     = Inr (Some [Fin 255, Fin 0], True, 1, Fin 1, False) \<and>
   andThen (embeddedBytes (Some 0)) (\<lambda>(p, c). getValue p 0 None) = Inr (JNum (Fin 255)) \<and>
   andThen (embeddedBytes (Some 0)) (\<lambda>(p, c). getValue p 1 None) = Inr (JNum (Fin 0))"
  by (simp add: embeddedBytes_def accessor_defs example_defs number_defs access_defs)

text \<open>The same property built from an accessor without the field \<open>bufferViewId\<close> reads 0
  where the raw component is 255.\<close>

lemma embedded_bytes_read_zero:
  "andThen (embeddedBytes None) (\<lambda>(p, c). Inr (typedArray p, initializedWithZeros p))
     = Inr (Some [Fin 255, Fin 0], True) \<and>
   andThen (embeddedBytes None) (\<lambda>(p, c). getValue p 0 None) = Inr (JNum (Fin 0))"
  by (simp add: embeddedBytes_def accessor_defs example_defs number_defs access_defs)

text \<open>
  C9. For the signed byte \<open>getMaximumValue\<close> is \<open>2 ^ 0 - 1 = 0\<close>. On a normalized
  signed-byte property \<open>encodeValue\<close> sends 1 to \<open>round (1 * 0) = 0\<close>, and \<open>decodeValue\<close>
  sends that to \<open>max (0 / 0, -1)\<close>, which is \<open>NaN\<close>: writing 1 and reading it back gives
  \<open>NaN\<close>, which is within no distance of 1.
\<close>

theorem signed_byte_roundtrip_is_NaN:
  "getMaximumValue BYTE = Fin 0 \<and>
   andThen signedBytes (\<lambda>(p, c). Inr (normalized p, signed p, maximumValue p))
     = Inr (True, True, Fin 0) \<and>
   andThen signedBytes (\<lambda>(p, c). Inr (encodeValue p (JNum (Fin 1)))) = Inr (JNum (Fin 0)) \<and>
   andThen signedBytes (\<lambda>(p, c). Inr (decodeValue p (encodeValue p (JNum (Fin 1)))))
     = Inr (JNum NaN) \<and>
   andThen signedBytes
     (\<lambda>(p, c). andThen (setValue p 0 (JNum (Fin 1))) (\<lambda>p1. getValue p1 0 None))
     = Inr (JNum NaN)"
  by (simp add: signedBytes_def accessor_defs example_defs number_defs access_defs)

text \<open>
  Where the maximum of a normalized signed property is positive, encoding a number of
  the interval from -1 to 1 and decoding the result gives a number within half a step,
  \<open>1 / (2 * max)\<close>, of it. Under \<open>getMaximumValue\<close> that is so for the 16-bit and 32-bit
  types (maximum 1 and 7), and not for the signed byte (maximum 0).
\<close>

theorem normalized_roundtrip:
  assumes "normalized p" and "signed p" and "maximumValue p = Fin m" and "0 < m"
    and "- 1 \<le> x" and "x \<le> 1"
  shows "\<exists>y. decodeValue p (encodeValue p (JNum (Fin x))) = JNum (Fin y) \<and>
           \<bar>y - x\<bar> \<le> 1 / (2 * m)"
proof -
  define k :: real where "k = of_int \<lfloor>x * m + 1 / 2\<rfloor>"
  have dec: "decodeValue p (encodeValue p (JNum (Fin x))) = JNum (Fin (max (k / m) (- 1)))"
    using assms by (simp add: decodeValue_def encodeValue_def k_def)
  have lo: "x * m - 1 / 2 < k" and hi: "k \<le> x * m + 1 / 2"
    unfolding k_def by linarith+
  have "(x * m - 1 / 2) / m < k / m"
    using lo \<open>0 < m\<close> by (rule divide_strict_right_mono)
  moreover have "k / m \<le> (x * m + 1 / 2) / m"
    using hi \<open>0 < m\<close> by (simp add: divide_right_mono)
  moreover have "(x * m - 1 / 2) / m = x - 1 / (2 * m)" "(x * m + 1 / 2) / m = x + 1 / (2 * m)"
    using \<open>0 < m\<close> by (simp_all add: field_simps)
  ultimately have "x - 1 / (2 * m) < k / m" and "k / m \<le> x + 1 / (2 * m)" by simp_all
  moreover have "0 < 1 / (2 * m)" using \<open>0 < m\<close> by simp
  ultimately have "\<bar>max (k / m) (- 1) - x\<bar> \<le> 1 / (2 * m)"
    using \<open>- 1 \<le> x\<close> by (simp add: max_def abs_le_iff)
  with dec show ?thesis by blast
qed

theorem normalized_roundtrip_witness:
  "andThen signedInts (\<lambda>(p, c). Inr (normalized p, signed p, maximumValue p))
     = Inr (True, True, Fin 7) \<and>
   (0 :: real) < 7 \<and> (- 1 :: real) \<le> 3 / 7 \<and> (3 / 7 :: real) \<le> 1 \<and>
   andThen signedInts
     (\<lambda>(p, c). Inr (\<exists>y. decodeValue p (encodeValue p (JNum (Fin (3 / 7)))) = JNum (Fin y) \<and>
                          \<bar>y - 3 / 7\<bar> \<le> 1 / (2 * 7)))
     = Inr True"
proof -
  obtain p c where pc: "signedInts = Inr (p, c)"
    by (simp add: signedInts_def accessor_defs example_defs number_defs)
  have n: "normalized p" and sg: "signed p" and m: "maximumValue p = Fin 7"
    using pc by (auto simp: signedInts_def accessor_defs example_defs number_defs)
  have "\<exists>y. decodeValue p (encodeValue p (JNum (Fin (3 / 7)))) = JNum (Fin y) \<and>
          \<bar>y - 3 / 7\<bar> \<le> 1 / (2 * 7)"
    using normalized_roundtrip [OF n sg m, of "3 / 7"] by simp
  then show ?thesis
    unfolding andThen_def pc using n sg m by simp
qed

section \<open>The states of an accessor property\<close>

text \<open>In a debug build the constructor of a property whose buffer is external raises:
  the URI that \<open>getExternalBuffer\<close> reads from the string it is given is undefined.\<close>

lemma external_buffer_debug_build:
  "externalBytes True = Inl (DeveloperError TypeCheck)"
  by (simp add: externalBytes_def accessor_defs example_defs)

text \<open>
  C3. A property whose buffer \<open>data.bin\<close> is external, in a release build: the
  constructor requests a buffer (one fetch, of the location the undefined URI resolves
  to, with one handler) and leaves the typed array undefined; the fetch resolves to the
  byte 7 and the cache delivers it; the continuation binds the typed array holding 7.
  \<open>getValue\<close> then returns 0, not 7: the implicit-zero flag, computed from the field
  \<open>bufferViewId\<close> that the accessor does not have, is still set.
\<close>

theorem resolved_external_buffer_reads_zero:
  "andThen (externalBytes False)
     (\<lambda>(p, c). Inr (fetchLog c, promiseCache c ''base'', typedArray p))
     = Inr ([(FetchArrayBuffer, ''base'')], Some [BufferHandler], None) \<and>
   andThen (externalBytes False)
     (\<lambda>(p, c). Inr (fst (settle c ''base'' (Fulfilled (ArrayBuffer [7])))))
     = Inr [BufferResult (Some \<lparr>source_byteOffset = 0, source_bytes = [7]\<rparr>)] \<and>
   andThen (externalBytes False)
     (\<lambda>(p, c).
        andThen (bindExternalBuffer byteView (document externalAccessor None) externalAccessor p
                   (Some \<lparr>source_byteOffset = 0, source_bytes = [7]\<rparr>))
          (\<lambda>p1. Inr (typedArray p1, initializedWithZeros p1, getValue p1 0 None)))
     = Inr (Some [Fin 7], True, Inr (JNum (Fin 0)))"
  by (simp add: externalBytes_def accessor_defs example_defs number_defs access_defs settle_def)

text \<open>
  C4. The same property before its buffer has arrived: \<open>setValue\<close> of feature 0 to 5
  is not dropped. The implicit-zero flag is set, so the call allocates a zero-filled
  typed array, clears the flag and stores 5: the property is not the one before the call.
\<close>

theorem pending_setValue_allocates:
  "andThen (externalBytes False)
     (\<lambda>(p, c). Inr (typedArray p, initializedWithZeros p, promiseCache c ''base''))
     = Inr (None, True, Some [BufferHandler]) \<and>
   andThen (externalBytes False)
     (\<lambda>(p, c). andThen (setValue p 0 (JNum (Fin 5)))
                  (\<lambda>p1. Inr (typedArray p1, initializedWithZeros p1, p1 = p)))
     = Inr (Some [Fin 5], False, False)"
  by (simp add: externalBytes_def accessor_defs example_defs number_defs access_defs)

text \<open>Where the flag is clear and no typed array is bound, \<open>setValue\<close> drops the write
  and \<open>getValue\<close> returns \<open>undefined\<close>.\<close>

theorem unbound_setValue_is_dropped:
  assumes "\<not> initializedWithZeros p" and "typedArray p = None"
  shows "setValue p featureId v = Inr p \<and> getValue p featureId result = Inr JUndefined"
  using assms by (simp add: setValue_def getValue_def)

theorem unbound_setValue_is_dropped_witness:
  "andThen unboundBytes
     (\<lambda>(p, c). Inr (initializedWithZeros p, typedArray p, setValue p 0 (JNum (Fin 5)) = Inr p,
                     getValue p 0 None))
     = Inr (False, None, True, Inr JUndefined)"
proof -
  obtain p c where pc: "unboundBytes = Inr (p, c)"
    by (simp add: unboundBytes_def accessor_defs example_defs number_defs)
  have flag: "\<not> initializedWithZeros p" and ta: "typedArray p = None"
    using pc by (auto simp: unboundBytes_def accessor_defs example_defs number_defs)
  from unbound_setValue_is_dropped [OF flag ta, of 0 "JNum (Fin 5)" None]
  show ?thesis unfolding andThen_def pc using flag ta by simp
qed

text \<open>The constructor gives a property the component count and the class of its
  accessor's type, and sets the flag exactly when the accessor has no field
  \<open>bufferViewId\<close>; without a buffer view it binds no typed array and asks the cache
  for nothing.\<close>

lemma constructed_shape:
  assumes "GltfFeatureTableAccessorProperty debug view g nm property c = Inr (p, c1)"
  shows "\<exists>i a. property_accessor property = Some i \<and> lookup (accessors g) i = Some a \<and>
           componentCount p = componentsPerType (accessor_type a) \<and>
           classType p = classPerType (accessor_type a) \<and>
           initializedWithZeros p = (accessor_bufferViewId a = None) \<and>
           (accessor_bufferView a = None \<longrightarrow> typedArray p = None \<and> c1 = c)"
  using assms
  by (auto simp: GltfFeatureTableAccessorProperty_def getBinaryAccessor_def Let_def
        getBuffer_def getBufferSource_def getTypedArrayForAccessor_def
      split: option.splits sum.splits prod.splits reply.splits if_splits)



section \<open>The array property: copy on write\<close>

lemma map_clone: "map clone xs = xs"
  by (induction xs) (simp_all add: clone_def)

text \<open>
  C6. An array property that shares its sequence (at address \<open>r0\<close>, holding \<open>xs\<close>) with
  the cache: \<open>setValue\<close> leaves every object of the store as it was, the sequence at
  \<open>r0\<close> among them; the property then holds a new object, its flag is cleared, and the
  new object is the copy of \<open>xs\<close> with the copy of the value in the slot of the feature;
  any property that reads the sequence at \<open>r0\<close> reads after the write what it read before.
\<close>

theorem shared_setValue_copies:
  assumes "values p = Some r0" and "fromCache p" and "store_get s r0 = Some xs"
  shows "case ArrayProperty_setValue s p featureId v of
           (p1, s1) \<Rightarrow>
             store_get s1 r0 = Some xs \<and>
             (\<forall>r. r < length s \<longrightarrow> store_get s1 r = store_get s r) \<and>
             store_get s (length s) = None \<and>
             values p1 = Some (length s) \<and>
             \<not> fromCache p1 \<and>
             store_get s1 (length s) = Some (array_set (map clone xs) featureId (clone v)) \<and>
             (\<forall>q i. values q = Some r0 \<longrightarrow>
                ArrayProperty_getValue s1 q i = ArrayProperty_getValue s q i)"
  using assms
  by (auto simp: ArrayProperty_setValue_def clone_array_def alloc_def store_get_def
        store_set_def ArrayProperty_getValue_def nth_append
      split: if_splits)

theorem shared_setValue_copies_witness:
  "values sharedProperty = Some 0 \<and> fromCache sharedProperty \<and>
   store_get [[JNum (Fin 1), JNum (Fin 2)]] 0 = Some [JNum (Fin 1), JNum (Fin 2)] \<and>
   store_get (snd (ArrayProperty_setValue [[JNum (Fin 1), JNum (Fin 2)]] sharedProperty 1
                     (JNum (Fin 9)))) 0 = Some [JNum (Fin 1), JNum (Fin 2)] \<and>
   store_get (snd (ArrayProperty_setValue [[JNum (Fin 1), JNum (Fin 2)]] sharedProperty 1
                     (JNum (Fin 9)))) 1 = Some [JNum (Fin 1), JNum (Fin 9)] \<and>
   values (fst (ArrayProperty_setValue [[JNum (Fin 1), JNum (Fin 2)]] sharedProperty 1
                  (JNum (Fin 9)))) = Some 1"
proof -
  have h1: "values sharedProperty = Some 0" and h2: "fromCache sharedProperty"
    by (simp_all add: sharedProperty_def)
  have h3: "store_get [[JNum (Fin 1), JNum (Fin 2)]] 0 = Some [JNum (Fin 1), JNum (Fin 2)]"
    by (simp add: store_get_def)
  from shared_setValue_copies [OF h1 h2 h3, of 1 "JNum (Fin 9)"]
  show ?thesis using h1 h2 h3
    by (simp add: split_beta array_set_def clone_def)
qed

section \<open>The cache: handlers, frames and histories\<close>






lemma run_handlers_length:
  "length (fst (run_handlers v out hs c)) = length hs"
  by (induction hs arbitrary: c) (simp_all add: split_beta Let_def)



text \<open>A request for a URI is not refused, whatever the build, and leaves the cache as
  the event of the request does.\<close>

lemma getExternalBuffer_request:
  "\<exists>r. getExternalBuffer debug c (Some uri) = Inr (r, step c (RequestBuffer uri))"
  by (simp add: getExternalBuffer_def Let_def split: option.splits)




















section \<open>The feature table\<close>

lemmas table_defs = tableOf_def GltfFeatureTable_def constructProperty_def
  GltfFeatureTableArrayProperty_def GltfFeatureTableDescriptorProperty_def
  GltfFeatureTableAccessorProperty_def getBinaryAccessor_def getBuffer_def
  getBufferSource_def getTypedArrayForAccessor_def lookup_def new_cache_def
  alloc_def heightEntry_def describedEntry_def bareEntry_def accessorEntry_def
  scalarAccessor_def document_def andThen_def Let_def getExternalValues_def clone_def

text \<open>\<open>checkFeatureId\<close> raises exactly below 0 and above the feature count.\<close>

lemma checkFeatureId_raises:
  "checkFeatureId featureId (Some n) = Inl (DeveloperError OutOfRange)
     \<longleftrightarrow> featureId < 0 \<or> int n < featureId"
  by (simp add: checkFeatureId_def)

text \<open>
  C1. A table of three features with the array property \<open>height\<close>, in a debug build.
  With feature id 3, the feature count, nothing raises: \<open>checkFeatureId\<close> passes,
  \<open>getFeature\<close> returns \<open>undefined\<close>, \<open>getPropertyValue\<close> returns \<open>undefined\<close>, and
  \<open>setPropertyValue\<close> extends the value sequence by a fourth element. Feature id 2
  succeeds and feature id 4 raises.
\<close>

theorem featureCount_is_accepted:
  "checkFeatureId 3 (Some 3) = Inr () \<and>
   andThen (tableOf [(''height'', heightEntry)]) (\<lambda>(t, c, s). Inr (featureCount t, s))
     = Inr (Some 3, [[JNum (Fin 1), JNum (Fin 2), JNum (Fin 3)]]) \<and>
   andThen (tableOf [(''height'', heightEntry)])
     (\<lambda>(t, c, s). andThen (getFeature True t 3) (\<lambda>(f, t1). Inr (f, features t1)))
     = Inr (None, Some [Some 0, Some 1, Some 2]) \<and>
   andThen (tableOf [(''height'', heightEntry)])
     (\<lambda>(t, c, s). getPropertyValue True D s t 3 ''height'' None) = Inr JUndefined \<and>
   andThen (tableOf [(''height'', heightEntry)])
     (\<lambda>(t, c, s). andThen (setPropertyValue True D s t 3 ''height'' (JNum (Fin 9)))
                     (\<lambda>(t1, s1). Inr s1))
     = Inr [[JNum (Fin 1), JNum (Fin 2), JNum (Fin 3), JNum (Fin 9)]] \<and>
   andThen (tableOf [(''height'', heightEntry)])
     (\<lambda>(t, c, s). getPropertyValue True D s t 2 ''height'' None) = Inr (JNum (Fin 3)) \<and>
   andThen (tableOf [(''height'', heightEntry)])
     (\<lambda>(t, c, s). getPropertyValue True D s t 4 ''height'' None)
     = Inl (DeveloperError OutOfRange)"
  by (simp add: table_defs checkFeatureId_def getFeature_def createFeatures_def
        getPropertyValue_def setPropertyValue_def ArrayProperty_getValue_def
        ArrayProperty_setValue_def store_get_def store_set_def array_get_def array_set_def
        property_type_def valueMismatch_def compositeMismatch_def getTypeFromArrayType_def
        upt_rec)









end
